theory Spec2Isabelle
  imports Main "HOL-Library.Char_ord" "HOL-Library.List_Lexorder"
begin

section \<open>The build server of nixserve (src/server/build-server.py)\<close>

text \<open>
  The server is a facade over three outside parties: the service supervisor (reached by
  running \<^verbatim>\<open>systemctl\<close>), the files below \<^verbatim>\<open>DATA_DIR\<close> that the build jobs write, and
  the \<^verbatim>\<open>tail\<close> utility. A request is modelled against one snapshot of those parties, the
  record \<open>world\<close>; every endpoint returns its answer together with the list of the
  accesses it made to them, in the order it made them.

  A \<open>string\<close> is a list of bytes. A file holds bytes; a Python \<^verbatim>\<open>str\<close> is represented by
  its UTF-8 encoding, the encoding Python uses for files and pipes here (UTF-8 mode, or a
  UTF-8 locale). Byte order on such strings is code point order, and a byte below 128
  occurs only as the character it is, so splitting at line feeds, searching and replacing
  ASCII pieces and sorting work on the bytes as they do on the code points.
  Calls to the logger are left out. Spawning a process is taken to succeed (the
  executables exist), so \<^verbatim>\<open>subprocess.run\<close> returns an exit status and the captured
  output.
\<close>

subsection \<open>Bytes and UTF-8\<close>

definition LF :: char where
  "LF = CHR 0x0A"

definition CR :: char where
  "CR = CHR 0x0D"

definition byte :: "char \<Rightarrow> nat" where
  "byte c = of_char c"

text \<open>A continuation byte of UTF-8: \<open>0x80..0xBF\<close>.\<close>

definition cont :: "char \<Rightarrow> bool" where
  "cont c = (128 \<le> byte c \<and> byte c \<le> 191)"

text \<open>
  The length of the well-formed UTF-8 character at the head of \<open>s\<close>, and 0 when there is
  none. Overlong forms, surrogates and code points above \<open>0x10FFFF\<close> are not well-formed,
  so after the lead bytes \<open>0xE0\<close>, \<open>0xED\<close>, \<open>0xF0\<close> and \<open>0xF4\<close> the second byte has a
  narrower range.
\<close>

definition utf8_len :: "string \<Rightarrow> nat" where
  "utf8_len s =
     (case s of
        [] \<Rightarrow> 0
      | a # r \<Rightarrow>
          if byte a < 128 then 1
          else if 194 \<le> byte a \<and> byte a \<le> 223 then
            (case r of b # _ \<Rightarrow> if cont b then 2 else 0 | _ \<Rightarrow> 0)
          else if 224 \<le> byte a \<and> byte a \<le> 239 then
            (case r of
               b # c # _ \<Rightarrow>
                 if (if byte a = 224 then 160 \<le> byte b \<and> byte b \<le> 191
                     else if byte a = 237 then 128 \<le> byte b \<and> byte b \<le> 159
                     else cont b) \<and> cont c
                 then 3 else 0
             | _ \<Rightarrow> 0)
          else if 240 \<le> byte a \<and> byte a \<le> 244 then
            (case r of
               b # c # d # _ \<Rightarrow>
                 if (if byte a = 240 then 144 \<le> byte b \<and> byte b \<le> 191
                     else if byte a = 244 then 128 \<le> byte b \<and> byte b \<le> 143
                     else cont b) \<and> cont c \<and> cont d
                 then 4 else 0
             | _ \<Rightarrow> 0)
          else 0)"

text \<open>
  The characters of a byte string, each as the bytes that encode it; a byte that starts
  no well-formed character stands alone.
\<close>

function utf8_chars :: "string \<Rightarrow> string list" where
  "utf8_chars s =
     (if s = [] then []
      else take (max 1 (utf8_len s)) s # utf8_chars (drop (max 1 (utf8_len s)) s))"
  by pat_completeness auto
termination
  by (relation "measure length") auto

declare utf8_chars.simps [simp del]

text \<open>Strict decoding succeeds on exactly the byte strings made of well-formed characters.\<close>

definition utf8_valid :: "string \<Rightarrow> bool" where
  "utf8_valid s = list_all (\<lambda>c. utf8_len c = length c) (utf8_chars s)"

subsection \<open>Python string operations used by the server\<close>

text \<open>
  The code points for which \<^verbatim>\<open>str.isspace\<close> holds, in UTF-8: \<open>U+0009..U+000D\<close>,
  \<open>U+001C..U+0020\<close>, \<open>U+0085\<close>, \<open>U+00A0\<close>, \<open>U+1680\<close>, \<open>U+2000..U+200A\<close>, \<open>U+2028\<close>,
  \<open>U+2029\<close>, \<open>U+202F\<close>, \<open>U+205F\<close> and \<open>U+3000\<close>.
\<close>

definition isspace :: "string \<Rightarrow> bool" where
  "isspace ch =
     (case map byte ch of
        [a] \<Rightarrow> (9 \<le> a \<and> a \<le> 13) \<or> (28 \<le> a \<and> a \<le> 32)
      | [a, b] \<Rightarrow> a = 194 \<and> (b = 133 \<or> b = 160)
      | [a, b, c] \<Rightarrow>
          (a = 225 \<and> b = 154 \<and> c = 128) \<or>
          (a = 226 \<and> b = 128 \<and> ((128 \<le> c \<and> c \<le> 138) \<or> c = 168 \<or> c = 169 \<or> c = 175)) \<or>
          (a = 226 \<and> b = 129 \<and> c = 159) \<or>
          (a = 227 \<and> b = 128 \<and> c = 128)
      | _ \<Rightarrow> False)"

text \<open>\<^verbatim>\<open>s.strip()\<close>: leading and trailing whitespace characters removed.\<close>

definition strip :: "string \<Rightarrow> string" where
  "strip s = concat (rev (dropWhile isspace (rev (dropWhile isspace (utf8_chars s)))))"

text \<open>\<^verbatim>\<open>s.split("\n")\<close>: the pieces between line feeds; never the empty list.\<close>

fun split_nl :: "string \<Rightarrow> string list" where
  "split_nl [] = [[]]"
| "split_nl (c # cs) =
     (if c = LF then [] # split_nl cs
      else (case split_nl cs of [] \<Rightarrow> [[c]] | p # ps \<Rightarrow> (c # p) # ps))"

text \<open>
  \<^verbatim>\<open>s.split()\<close>: the maximal runs of non-whitespace characters. \<open>split_ws_chars\<close> works on
  the list of the characters.
\<close>

fun split_ws_chars :: "string list \<Rightarrow> string list" where
  "split_ws_chars [] = []"
| "split_ws_chars (c # cs) =
     (if isspace c then split_ws_chars cs
      else (case cs of
              [] \<Rightarrow> [c]
            | d # _ \<Rightarrow>
                if isspace d then c # split_ws_chars cs
                else (case split_ws_chars cs of [] \<Rightarrow> [c] | p # ps \<Rightarrow> (c @ p) # ps)))"

definition split_ws :: "string \<Rightarrow> string list" where
  "split_ws s = split_ws_chars (utf8_chars s)"

text \<open>\<^verbatim>\<open>old in s\<close> for strings: \<open>old\<close> occurs in \<open>s\<close> as a contiguous piece.\<close>

fun contains :: "string \<Rightarrow> string \<Rightarrow> bool" where
  "contains old [] = (old = [])"
| "contains old (c # cs) = (take (length old) (c # cs) = old \<or> contains old cs)"

text \<open>
  \<^verbatim>\<open>s.replace(old, new)\<close>: every occurrence of \<open>old\<close>, scanning from the left and
  not overlapping, becomes \<open>new\<close> (\<open>replace_scan\<close>, for a non-empty \<open>old\<close>). With an
  empty \<open>old\<close> Python puts \<open>new\<close> before every character and at the end.
\<close>

function replace_scan :: "string \<Rightarrow> string \<Rightarrow> string \<Rightarrow> string" where
  "replace_scan old new [] = []"
| "replace_scan old new (c # cs) =
     (if old \<noteq> [] \<and> take (length old) (c # cs) = old
      then new @ replace_scan old new (drop (length old) (c # cs))
      else c # replace_scan old new cs)"
  by pat_completeness auto
termination
  by (relation "measure (\<lambda>(old, new, s). length s)") auto

definition replace :: "string \<Rightarrow> string \<Rightarrow> string \<Rightarrow> string" where
  "replace old new s =
     (if old = [] then new @ concat (map (\<lambda>ch. ch @ new) (utf8_chars s))
      else replace_scan old new s)"

text \<open>\<^verbatim>\<open>str(n)\<close> for an integer: decimal digits, a minus sign when negative.\<close>

fun str_nat :: "nat \<Rightarrow> string" where
  "str_nat n =
     (if n < 10 then [char_of (48 + n)]
      else str_nat (n div 10) @ [char_of (48 + n mod 10)])"

declare str_nat.simps [simp del]

definition str :: "int \<Rightarrow> string" where
  "str i = (if i < 0 then CHR ''-'' # str_nat (nat (- i)) else str_nat (nat i))"

text \<open>
  Reading in text mode (\<^verbatim>\<open>text=True\<close> of \<^verbatim>\<open>subprocess.run\<close>, \<^verbatim>\<open>Path.read_text\<close>)
  translates line ends: CR LF and a lone CR both arrive as LF.
\<close>

fun universal_newlines :: "string \<Rightarrow> string" where
  "universal_newlines [] = []"
| "universal_newlines [c] = (if c = CR then [LF] else [c])"
| "universal_newlines (c # d # ds) =
     (if c = CR then
        (if d = LF then LF # universal_newlines ds else LF # universal_newlines (d # ds))
      else c # universal_newlines (d # ds))"

subsection \<open>The outside world\<close>

text \<open>
  What is at a path: no file, a file that cannot be opened for reading (or a directory),
  or a regular file with its bytes.
\<close>

datatype file_state = Missing | Unreadable | Regular string

text \<open>
  What the server can raise: the \<^verbatim>\<open>HTTPException\<close> of FastAPI, which the endpoints raise
  themselves, and the two exceptions of the standard library that reach them from the
  file system and from decoding. An exception that leaves an endpoint other than
  \<^verbatim>\<open>HTTPException\<close> is answered with HTTP 500.
\<close>

datatype exception =
  HTTPException (status_code : int) (detail : string)
| PermissionError
| UnicodeDecodeError

text \<open>An access of the server to the outside: a process run with its argv, or a file call.\<close>

datatype event = Run "string list" | Exists string | ReadText string

datatype build_outcome = success | failed

type_synonym datetime = string

record BuildStatus =
  is_running :: bool
  last_start :: "datetime option"
  last_finish :: "datetime option"
  last_status :: "build_outcome option"
  last_commit :: "string option"
  repository :: string

text \<open>
  One snapshot of the outside. \<open>list_units_out\<close> and \<open>is_active_out\<close> are the text that
  \<^verbatim>\<open>subprocess.run\<close> captures from \<^verbatim>\<open>systemctl list-units\<close> and from
  \<^verbatim>\<open>systemctl is-active u\<close>; \<open>start_result\<close> is the exit status and the standard error of
  \<^verbatim>\<open>sudo systemctl start u\<close>. The three are Python strings, already decoded.
  \<open>fs\<close> is the file system by path, and \<open>searchable p\<close> says whether \<^verbatim>\<open>stat\<close> on the
  path \<open>p\<close> gets as far as the file: when a directory on the way may not be searched,
  \<^verbatim>\<open>stat\<close> fails with \<^verbatim>\<open>EACCES\<close> whatever is or is not there. \<open>load_status\<close> stands for
  the library calls \<^verbatim>\<open>json.loads\<close> followed by \<^verbatim>\<open>BuildStatus(**data)\<close> on the text of a
  status file: \<open>None\<close> when either raises, else the validated model (which carries the
  \<^verbatim>\<open>is_running\<close> and \<^verbatim>\<open>repository\<close> that the file itself states).
\<close>

record world =
  DATA_DIR :: string
  list_units_out :: string
  is_active_out :: "string \<Rightarrow> string"
  start_result :: "string \<Rightarrow> int \<times> string"
  fs :: "string \<Rightarrow> file_state"
  searchable :: "string \<Rightarrow> bool"
  load_status :: "string \<Rightarrow> BuildStatus option"

text \<open>
  \<^verbatim>\<open>Path.exists\<close>: \<^verbatim>\<open>stat\<close> the path; "no such file" is the answer \<^verbatim>\<open>False\<close>, while a
  permission error of \<^verbatim>\<open>stat\<close> is raised again.
\<close>

definition path_exists :: "world \<Rightarrow> string \<Rightarrow> exception + bool" where
  "path_exists w p =
     (if \<not> searchable w p then Inl PermissionError else Inr (fs w p \<noteq> Missing))"

text \<open>
  Strict decoding of bytes read in text mode: \<^verbatim>\<open>UnicodeDecodeError\<close> on bytes that are not
  UTF-8, else the text with its line ends translated.
\<close>

definition decode :: "string \<Rightarrow> exception + string" where
  "decode bytes =
     (if utf8_valid bytes then Inr (universal_newlines bytes) else Inl UnicodeDecodeError)"

subsection \<open>The tail utility\<close>

text \<open>
  The lines of a text as \<^verbatim>\<open>tail\<close> counts them: each ends with its line feed, the last
  one may lack it.
\<close>

fun lines_keepends :: "string \<Rightarrow> string list" where
  "lines_keepends [] = []"
| "lines_keepends (c # cs) =
     (if c = LF then [c] # lines_keepends cs
      else (case lines_keepends cs of [] \<Rightarrow> [[c]] | l # ls \<Rightarrow> (c # l) # ls))"

text \<open>
  \<^verbatim>\<open>tail -n N file\<close>: the last \<open>N\<close> lines of the file. \<open>N\<close> is \<^verbatim>\<open>str(lines)\<close>, so a
  negative number arrives with a minus sign, which \<^verbatim>\<open>tail\<close> reads as "relative to the
  end", the same as no sign. GNU \<^verbatim>\<open>tail\<close> refuses a count of \<open>2^64\<close> or more as an
  invalid number of lines and prints nothing on standard output; on a file it cannot
  read it prints nothing there either. \<open>tail_stdout\<close> is the bytes on standard output.
\<close>

definition tail_n :: "int \<Rightarrow> string \<Rightarrow> string" where
  "tail_n n bytes =
     (if 18446744073709551616 \<le> \<bar>n\<bar> then []
      else (let ls = lines_keepends bytes in concat (drop (length ls - nat \<bar>n\<bar>) ls)))"

definition tail_stdout :: "file_state \<Rightarrow> int \<Rightarrow> string" where
  "tail_stdout f n = (case f of Regular bytes \<Rightarrow> tail_n n bytes | _ \<Rightarrow> [])"

subsection \<open>Response models\<close>

datatype trigger_state = triggered | already_running

record BuildTriggerResponse =
  trigger_status :: trigger_state
  message :: string
  trigger_repository :: string

record BuildLogs =
  logs :: "string list"

datatype health_state = healthy | degraded | down

record HealthCheck =
  health_status :: health_state
  cache_running :: bool
  repositories :: "string list"

subsection \<open>Helper functions\<close>

definition list_units_cmd :: "string list" where
  "list_units_cmd =
     [''systemctl'', ''list-units'', ''--all'', ''nix-build-*'', ''--no-pager'', ''--no-legend'']"

text \<open>The loop of \<^verbatim>\<open>get_available_repos\<close> over the lines of the supervisor's listing.\<close>

fun repos_of_lines :: "string list \<Rightarrow> string list" where
  "repos_of_lines [] = []"
| "repos_of_lines (line # rest) =
     (if contains ''nix-build-'' line then
        (case split_ws line of
           [] \<Rightarrow> repos_of_lines rest
         | p # _ \<Rightarrow>
             (let service_name = replace ''.service'' [] p;
                  repo_name = replace ''nix-build-'' [] service_name
              in repo_name # repos_of_lines rest))
      else repos_of_lines rest)"

definition get_available_repos :: "world \<Rightarrow> string list \<times> event list" where
  "get_available_repos w =
     (sort (remdups (repos_of_lines (split_nl (list_units_out w)))), [Run list_units_cmd])"

definition is_build_running :: "world \<Rightarrow> string \<Rightarrow> bool \<times> event list" where
  "is_build_running w repo =
     (let unit = ''nix-build-'' @ repo
      in (strip (is_active_out w unit) = ''active'', [Run [''systemctl'', ''is-active'', unit]]))"

definition is_cache_running :: "world \<Rightarrow> bool \<times> event list" where
  "is_cache_running w =
     (strip (is_active_out w ''harmonia'') = ''active'',
      [Run [''systemctl'', ''is-active'', ''harmonia'']])"

text \<open>
  \<^verbatim>\<open>BuildStatus(is_running=r, repository=repo)\<close>: the other fields take their default,
  \<^verbatim>\<open>None\<close>.
\<close>

definition new_BuildStatus :: "bool \<Rightarrow> string \<Rightarrow> BuildStatus" where
  "new_BuildStatus r repo =
     \<lparr>is_running = r, last_start = None, last_finish = None, last_status = None,
      last_commit = None, repository = repo\<rparr>"

text \<open>\<^verbatim>\<open>DATA_DIR / "status" / f"{repo}.json"\<close>, for a name without a slash.\<close>

definition status_path :: "world \<Rightarrow> string \<Rightarrow> string" where
  "status_path w repo = DATA_DIR w @ ''/status/'' @ repo @ ''.json''"

definition log_path :: "world \<Rightarrow> string \<Rightarrow> string" where
  "log_path w repo = DATA_DIR w @ ''/logs/'' @ repo @ ''.log''"

text \<open>
  The body of the \<^verbatim>\<open>try\<close> of \<^verbatim>\<open>get_build_status\<close>: \<open>None\<close> when it raises
  (\<^verbatim>\<open>read_text\<close> on a file that cannot be opened or whose bytes are not UTF-8,
  \<^verbatim>\<open>json.loads\<close>, or the validation of the model), with the accesses made up to there.
\<close>

definition read_status :: "world \<Rightarrow> string \<Rightarrow> BuildStatus option \<times> event list" where
  "read_status w repo =
     (let status_file = status_path w repo in
      case fs w status_file of
        Regular bytes \<Rightarrow>
          (case decode bytes of
             Inl e \<Rightarrow> (None, [ReadText status_file])
           | Inr text \<Rightarrow>
               (case load_status w text of
                  None \<Rightarrow> (None, [ReadText status_file])
                | Some status \<Rightarrow>
                    (let (r, t) = is_build_running w repo
                     in (Some (status\<lparr>is_running := r\<rparr>), ReadText status_file # t))))
      | _ \<Rightarrow> (None, [ReadText status_file]))"

text \<open>
  \<^verbatim>\<open>status_file.exists()\<close> stands before the \<^verbatim>\<open>try\<close>, so what it raises leaves the
  function; \<^verbatim>\<open>except Exception\<close> catches whatever the body of the \<^verbatim>\<open>try\<close> raises.
\<close>

definition get_build_status ::
  "world \<Rightarrow> string \<Rightarrow> (exception + BuildStatus) \<times> event list" where
  "get_build_status w repo =
     (let status_file = status_path w repo in
      case path_exists w status_file of
        Inl e \<Rightarrow> (Inl e, [Exists status_file])
      | Inr False \<Rightarrow> (Inr (new_BuildStatus False repo), [Exists status_file])
      | Inr True \<Rightarrow>
          (case read_status w repo of
             (Some status, t) \<Rightarrow> (Inr status, Exists status_file # t)
           | (None, t) \<Rightarrow>
               (let (r, t') = is_build_running w repo
                in (Inr (new_BuildStatus r repo), Exists status_file # t @ t'))))"

subsection \<open>Endpoints\<close>

definition not_found :: "string \<Rightarrow> exception" where
  "not_found repo =
     HTTPException 404 (''Repository '' @ [CHR 0x27] @ repo @ [CHR 0x27] @ '' not found'')"

definition trigger_build ::
  "world \<Rightarrow> string \<Rightarrow> (exception + BuildTriggerResponse) \<times> event list" where
  "trigger_build w repo =
     (let (repos, t1) = get_available_repos w in
      if repo \<notin> set repos then (Inl (not_found repo), t1)
      else
        (let (running, t2) = is_build_running w repo in
         if running then
           (Inr \<lparr>trigger_status = already_running,
                 message = ''Build for '' @ repo @ '' already in progress'',
                 trigger_repository = repo\<rparr>,
            t1 @ t2)
         else
           (let unit = ''nix-build-'' @ repo;
                t3 = [Run [''sudo'', ''systemctl'', ''start'', unit]];
                (returncode, stderr) = start_result w unit
            in if returncode = 0 then
                 (Inr \<lparr>trigger_status = triggered,
                       message = ''Build started for '' @ repo,
                       trigger_repository = repo\<rparr>,
                  t1 @ t2 @ t3)
               else
                 (Inl (HTTPException 500 (''Build trigger failed: '' @ stderr)),
                  t1 @ t2 @ t3))))"

definition build_status ::
  "world \<Rightarrow> string \<Rightarrow> (exception + BuildStatus) \<times> event list" where
  "build_status w repo =
     (let (repos, t1) = get_available_repos w in
      if repo \<notin> set repos then (Inl (not_found repo), t1)
      else (let (status, t2) = get_build_status w repo in (status, t1 @ t2)))"

definition build_logs ::
  "world \<Rightarrow> string \<Rightarrow> int \<Rightarrow> (exception + BuildLogs) \<times> event list" where
  "build_logs w repo lines =
     (let (repos, t1) = get_available_repos w in
      if repo \<notin> set repos then (Inl (not_found repo), t1)
      else
        (let log_file = log_path w repo in
         case path_exists w log_file of
           Inl e \<Rightarrow> (Inl e, t1 @ [Exists log_file])
         | Inr False \<Rightarrow> (Inr \<lparr>logs = []\<rparr>, t1 @ [Exists log_file])
         | Inr True \<Rightarrow>
             (let lines = min lines 10000;
                  t2 = [Exists log_file, Run [''tail'', ''-n'', str lines, log_file]]
              in case decode (tail_stdout (fs w log_file) lines) of
                   Inl e \<Rightarrow> (Inl e, t1 @ t2)
                 | Inr stdout \<Rightarrow> (Inr \<lparr>logs = split_nl stdout\<rparr>, t1 @ t2))))"

definition health :: "world \<Rightarrow> HealthCheck \<times> event list" where
  "health w =
     (let (running, t1) = is_cache_running w;
          (repos, t2) = get_available_repos w;
          status = (if \<not> running then degraded else healthy)
      in (\<lparr>health_status = status, cache_running = running, repositories = repos\<rparr>,
          t1 @ t2))"

subsection \<open>Notions used to state the properties\<close>

text \<open>The text of a log whose lines are \<open>ls\<close>, each ended by a line feed.\<close>

definition text_of_lines :: "string list \<Rightarrow> string" where
  "text_of_lines ls = concat (map (\<lambda>l. l @ [LF]) ls)"

text \<open>A request to the supervisor to start a unit: \<^verbatim>\<open>sudo systemctl start ...\<close>.\<close>

fun is_start_request :: "event \<Rightarrow> bool" where
  "is_start_request (Run argv) = (take 3 argv = [''sudo'', ''systemctl'', ''start''])"
| "is_start_request _ = False"

text \<open>
  A caller that polls and triggers: one \<^verbatim>\<open>trigger_build\<close> per snapshot of the world, in
  order. The snapshots are arbitrary, so whatever the supervisor and the build jobs do
  between two calls is covered.
\<close>

definition trigger_polling ::
  "world list \<Rightarrow> string \<Rightarrow> ((exception + BuildTriggerResponse) \<times> event list) list" where
  "trigger_polling ws repo = map (\<lambda>w. trigger_build w repo) ws"

subsection \<open>Concrete hosts\<close>

text \<open>
  A host with two units. \<^verbatim>\<open>alpha\<close> is building for the first time: it is active, has a
  log of two lines and no status file yet. \<^verbatim>\<open>beta\<close> is idle, its status file is not JSON
  and its log exists and is empty. The cache daemon is up.
\<close>

definition example_listing :: string where
  "example_listing =
     ''nix-build-alpha.service loaded active   running Build alpha'' @ [LF] @
     ''nix-build-beta.service  loaded inactive dead    Build beta'' @ [LF]"

definition example_world :: world where
  "example_world =
     \<lparr>DATA_DIR = ''/data'',
      list_units_out = example_listing,
      is_active_out =
        (\<lambda>u. if u = ''nix-build-alpha'' \<or> u = ''harmonia'' then ''active'' @ [LF]
             else ''inactive'' @ [LF]),
      start_result = (\<lambda>u. (0, [])),
      fs =
        (\<lambda>p. if p = ''/data/logs/alpha.log'' then Regular (''a'' @ [LF] @ ''b'' @ [LF])
             else if p = ''/data/logs/beta.log'' then Regular []
             else if p = ''/data/status/beta.json'' then Regular ''{not json''
             else Missing),
      searchable = (\<lambda>p. True),
      load_status = (\<lambda>text. None)\<rparr>"

text \<open>
  A host with one unit, \<^verbatim>\<open>site\<close>, that is active and has written nothing yet; the
  cache daemon is down.
\<close>

definition fresh_world :: world where
  "fresh_world =
     \<lparr>DATA_DIR = ''/var/lib/nix-build-server'',
      list_units_out = ''nix-build-site.service loaded active running Build site'' @ [LF],
      is_active_out = (\<lambda>u. if u = ''nix-build-site'' then ''active'' @ [LF] else ''inactive'' @ [LF]),
      start_result = (\<lambda>u. (0, [])),
      fs = (\<lambda>p. Missing),
      searchable = (\<lambda>p. True),
      load_status = (\<lambda>text. None)\<rparr>"

text \<open>The same host after \<^verbatim>\<open>site\<close> wrote a status file that the server may not read.\<close>

definition locked_world :: world where
  "locked_world =
     fresh_world
       \<lparr>fs := (\<lambda>p. if p = ''/var/lib/nix-build-server/status/site.json'' then Unreadable
                  else Missing)\<rparr>"

text \<open>The first host with no unit configured at all; the cache daemon is still up.\<close>

definition empty_world :: world where
  "empty_world = example_world\<lparr>list_units_out := []\<rparr>"

text \<open>
  The second host once more: \<^verbatim>\<open>site\<close> wrote a status file that is not JSON and no log,
  and the server may search neither directory below \<^verbatim>\<open>DATA_DIR\<close>.
\<close>

definition guarded_world :: world where
  "guarded_world =
     fresh_world
       \<lparr>fs := (\<lambda>p. if p = ''/var/lib/nix-build-server/status/site.json''
                  then Regular ''{not json'' else Missing),
        searchable := (\<lambda>p. False)\<rparr>"

text \<open>
  A host with three units and a log for each. The one line of \<^verbatim>\<open>bar\<close> holds a carriage
  return, as a progress bar writes it; the log of \<^verbatim>\<open>bin\<close> holds the byte \<open>0xFF\<close>, which is
  not UTF-8; the log of \<^verbatim>\<open>vault\<close> is an ordinary line in a directory that the server may
  not search.
\<close>

definition noisy_world :: world where
  "noisy_world =
     \<lparr>DATA_DIR = ''/data'',
      list_units_out =
        ''nix-build-bar.service loaded inactive dead Build bar'' @ [LF] @
        ''nix-build-bin.service loaded inactive dead Build bin'' @ [LF] @
        ''nix-build-vault.service loaded inactive dead Build vault'' @ [LF],
      is_active_out = (\<lambda>u. ''inactive'' @ [LF]),
      start_result = (\<lambda>u. (0, [])),
      fs =
        (\<lambda>p. if p = ''/data/logs/bar.log'' then Regular (''a'' @ [CR] @ ''b'' @ [LF])
             else if p = ''/data/logs/bin.log'' then Regular [CHR 0xFF, LF]
             else if p = ''/data/logs/vault.log'' then Regular (''x'' @ [LF])
             else Missing),
      searchable = (\<lambda>p. p \<noteq> ''/data/logs/vault.log''),
      load_status = (\<lambda>text. None)\<rparr>"

section \<open>Properties\<close>

subsection \<open>Auxiliary facts\<close>

text \<open>The discovery sets of the concrete hosts, computed once.\<close>

lemma repos_example_world: "fst (get_available_repos example_world) = [''alpha'', ''beta'']"
  by code_simp

lemma repos_fresh_world: "fst (get_available_repos fresh_world) = [''site'']"
  by code_simp

lemma repos_noisy_world: "fst (get_available_repos noisy_world) = [''bar'', ''bin'', ''vault'']"
  by code_simp

lemma repos_guarded_world: "fst (get_available_repos guarded_world) = [''site'']"
  using repos_fresh_world by (simp add: get_available_repos_def guarded_world_def)

lemma get_build_status_Missing:
  "searchable w (status_path w repo) \<Longrightarrow> fs w (status_path w repo) = Missing \<Longrightarrow>
   get_build_status w repo = (Inr (new_BuildStatus False repo), [Exists (status_path w repo)])"
  by (simp add: get_build_status_def path_exists_def)

lemma get_build_status_present:
  "searchable w (status_path w repo) \<Longrightarrow> fs w (status_path w repo) \<noteq> Missing \<Longrightarrow>
   map_sum id is_running (fst (get_build_status w repo)) = Inr (fst (is_build_running w repo))"
  by (auto simp: get_build_status_def path_exists_def read_status_def new_BuildStatus_def
                 Let_def
           split: file_state.splits option.splits prod.splits sum.splits)

lemma get_build_status_unsearchable:
  "\<not> searchable w (status_path w repo) \<Longrightarrow> fst (get_build_status w repo) = Inl PermissionError"
  by (simp add: get_build_status_def path_exists_def)

lemma trigger_build_running:
  assumes "repo \<in> set (fst (get_available_repos w))" and "fst (is_build_running w repo)"
  shows "trigger_build w repo =
           (Inr \<lparr>trigger_status = already_running,
                 message = ''Build for '' @ repo @ '' already in progress'',
                 trigger_repository = repo\<rparr>,
            [Run list_units_cmd, Run [''systemctl'', ''is-active'', ''nix-build-'' @ repo]])"
  using assms
  by (simp add: trigger_build_def is_build_running_def Let_def get_available_repos_def)

lemma split_nl_nonempty: "split_nl s \<noteq> []"
  by (induction s) (auto split: list.splits)

lemma split_nl_line: "LF \<notin> set l \<Longrightarrow> split_nl (l @ LF # rest) = l # split_nl rest"
  by (induction l) auto

lemma split_nl_text_of_lines:
  "\<forall>l \<in> set ls. LF \<notin> set l \<Longrightarrow> split_nl (text_of_lines ls) = ls @ [[]]"
  by (induction ls) (auto simp: text_of_lines_def split_nl_line)

lemma lines_keepends_line:
  "LF \<notin> set l \<Longrightarrow> lines_keepends (l @ LF # rest) = (l @ [LF]) # lines_keepends rest"
  by (induction l) auto

lemma lines_keepends_text_of_lines:
  "\<forall>l \<in> set ls. LF \<notin> set l \<Longrightarrow> lines_keepends (text_of_lines ls) = map (\<lambda>l. l @ [LF]) ls"
  by (induction ls) (auto simp: text_of_lines_def lines_keepends_line)

lemma universal_newlines_id: "CR \<notin> set s \<Longrightarrow> universal_newlines s = s"
  by (induction s rule: universal_newlines.induct) auto

lemma CR_text_of_lines:
  "\<forall>l \<in> set ls. CR \<notin> set l \<Longrightarrow> CR \<notin> set (text_of_lines ls)"
  by (auto simp: text_of_lines_def CR_def LF_def)

lemma tail_n_refused: "18446744073709551616 \<le> \<bar>n\<bar> \<Longrightarrow> tail_n n bytes = []"
  by (simp add: tail_n_def)

lemma tail_n_text_of_lines:
  assumes "\<forall>l \<in> set ls. LF \<notin> set l" and "\<bar>n\<bar> < 18446744073709551616"
  shows "tail_n n (text_of_lines ls) = text_of_lines (drop (length ls - nat \<bar>n\<bar>) ls)"
  using assms
  by (simp add: tail_n_def lines_keepends_text_of_lines Let_def drop_map)
     (simp add: text_of_lines_def)

text \<open>
  What \<^verbatim>\<open>build_logs\<close> makes of a log whose lines all end with a line feed: the lines that
  \<^verbatim>\<open>tail\<close> selected, in their order, and one empty string after them.
\<close>

lemma tail_stdout_text_of_lines:
  assumes "\<forall>l \<in> set ls. LF \<notin> set l \<and> CR \<notin> set l" and "\<bar>n\<bar> < 18446744073709551616"
  shows "split_nl (universal_newlines (tail_stdout (Regular (text_of_lines ls)) n))
         = drop (length ls - nat \<bar>n\<bar>) ls @ [[]]"
proof -
  let ?ks = "drop (length ls - nat \<bar>n\<bar>) ls"
  have sub: "\<forall>l \<in> set ?ks. LF \<notin> set l \<and> CR \<notin> set l"
    using assms(1) by (meson in_set_dropD)
  have "universal_newlines (tail_stdout (Regular (text_of_lines ls)) n)
          = universal_newlines (text_of_lines ?ks)"
    using assms by (simp add: tail_stdout_def tail_n_text_of_lines)
  also have "\<dots> = text_of_lines ?ks"
    using sub by (simp add: universal_newlines_id CR_text_of_lines)
  finally show ?thesis using sub by (simp add: split_nl_text_of_lines)
qed

lemma utf8_valid_Nil: "utf8_valid []"
  by (simp add: utf8_valid_def utf8_chars.simps)

lemma build_logs_existing:
  assumes "repo \<in> set (fst (get_available_repos w))"
    and "searchable w (log_path w repo)" and "fs w (log_path w repo) \<noteq> Missing"
    and "utf8_valid (tail_stdout (fs w (log_path w repo)) (min n 10000))"
  shows "fst (build_logs w repo n) =
           Inr \<lparr>logs = split_nl (universal_newlines
                                   (tail_stdout (fs w (log_path w repo)) (min n 10000)))\<rparr>"
  using assms
  by (simp add: build_logs_def get_available_repos_def path_exists_def decode_def Let_def)

lemma build_logs_undecodable:
  assumes "repo \<in> set (fst (get_available_repos w))"
    and "searchable w (log_path w repo)" and "fs w (log_path w repo) \<noteq> Missing"
    and "\<not> utf8_valid (tail_stdout (fs w (log_path w repo)) (min n 10000))"
  shows "fst (build_logs w repo n) = Inl UnicodeDecodeError"
  using assms
  by (simp add: build_logs_def get_available_repos_def path_exists_def decode_def Let_def)

lemma build_logs_unsearchable:
  assumes "repo \<in> set (fst (get_available_repos w))" and "\<not> searchable w (log_path w repo)"
  shows "fst (build_logs w repo n) = Inl PermissionError"
  using assms
  by (simp add: build_logs_def get_available_repos_def path_exists_def Let_def)

subsection \<open>Status reconciliation\<close>

text \<open>
  Claim C1. A unit without a persisted status record should get a status whose historical
  fields are empty and whose \<open>is_running\<close> is the result of the live probe. The code
  answers \<open>is_running = False\<close> without probing: on the first host \<^verbatim>\<open>alpha\<close> has no
  status file, the probe reports it active, and \<^verbatim>\<open>get_build_status\<close> returns the record
  with \<open>is_running = False\<close> after no more than the existence test.
\<close>

theorem get_build_status_no_record_ignores_probe:
  "fs example_world (status_path example_world ''alpha'') = Missing \<and>
   fst (is_build_running example_world ''alpha'') = True \<and>
   get_build_status example_world ''alpha'' =
     (Inr \<lparr>is_running = False, last_start = None, last_finish = None, last_status = None,
           last_commit = None, repository = ''alpha''\<rparr>,
      [Exists ''/data/status/alpha.json''])"
  by code_simp

text \<open>
  Claim C2. Whenever the live probe reports a unit active, its status should say
  \<open>is_running = True\<close>, whatever is persisted. The code does so for every status file
  that its existence test finds (\<open>get_build_status_present\<close>), but not when there is
  none: on the second
  host \<^verbatim>\<open>site\<close> is known and active, and both \<^verbatim>\<open>get_build_status\<close> and the endpoint
  \<^verbatim>\<open>build_status\<close> report it as not running, while \<^verbatim>\<open>trigger_build\<close> on the same host
  answers that the build is already running.
\<close>

theorem get_build_status_active_unit_reported_idle:
  "''site'' \<in> set (fst (get_available_repos fresh_world)) \<and>
   fst (is_build_running fresh_world ''site'') \<and>
   map_sum id is_running (fst (get_build_status fresh_world ''site'')) = Inr False \<and>
   fst (build_status fresh_world ''site'') = Inr (new_BuildStatus False ''site'') \<and>
   map_sum id trigger_status (fst (trigger_build fresh_world ''site'')) = Inr already_running"
  by code_simp

text \<open>
  Claim C7, as it stands, fails: a status file that exists, is not JSON and lies in a
  directory the server may not search makes \<^verbatim>\<open>get_build_status\<close> raise, because the
  existence test stands before the \<^verbatim>\<open>try\<close>.
\<close>

theorem get_build_status_corrupt_record_counterexample:
  "fs guarded_world (status_path guarded_world ''site'') = Regular ''{not json'' \<and>
   load_status guarded_world ''{not json'' = None \<and>
   fst (get_build_status guarded_world ''site'') = Inl PermissionError \<and>
   fst (get_build_status guarded_world ''site'') \<noteq>
     Inr (new_BuildStatus (fst (is_build_running guarded_world ''site'')) ''site'')"
  by code_simp

text \<open>
  Claim C7, amended. When the existence test finds the status file (\<^verbatim>\<open>stat\<close> on its path
  is not refused) and the file cannot be opened, or its bytes are not UTF-8, or its text
  is rejected by the JSON parser or by the validation of the model, \<^verbatim>\<open>get_build_status\<close>
  does not raise: it returns the status with every historical field empty and
  \<open>is_running\<close> taken from the live probe.
\<close>

theorem get_build_status_corrupt_record:
  assumes "searchable w (status_path w repo)"
    and "fs w (status_path w repo) = Unreadable \<or>
         (\<exists>bytes. fs w (status_path w repo) = Regular bytes \<and>
                   (\<not> utf8_valid bytes \<or> load_status w (universal_newlines bytes) = None))"
  shows "fst (get_build_status w repo) =
           Inr \<lparr>is_running = fst (is_build_running w repo), last_start = None,
                 last_finish = None, last_status = None, last_commit = None,
                 repository = repo\<rparr>"
proof -
  have body: "fst (read_status w repo) = None"
    using assms(2) by (auto simp: read_status_def decode_def Let_def)
  have found: "path_exists w (status_path w repo) = Inr True"
    using assms by (auto simp: path_exists_def)
  show ?thesis
    using body found
    by (cases "read_status w repo")
       (simp add: get_build_status_def new_BuildStatus_def Let_def split: prod.splits)
qed

theorem get_build_status_corrupt_record_witness:
  "fs example_world (status_path example_world ''beta'') = Regular ''{not json'' \<and>
   load_status example_world (universal_newlines ''{not json'') = None \<and>
   fst (get_build_status example_world ''beta'') = Inr (new_BuildStatus False ''beta'') \<and>
   fs locked_world (status_path locked_world ''site'') = Unreadable \<and>
   fst (get_build_status locked_world ''site'') = Inr (new_BuildStatus True ''site'')"
proof -
  have s1: "searchable example_world (status_path example_world ''beta'')"
    by code_simp
  have f: "fs example_world (status_path example_world ''beta'') = Regular ''{not json''"
    by code_simp
  have l: "load_status example_world (universal_newlines ''{not json'') = None"
    by code_simp
  have p: "fst (is_build_running example_world ''beta'') = False"
    by code_simp
  have s2: "searchable locked_world (status_path locked_world ''site'')"
    by code_simp
  have u: "fs locked_world (status_path locked_world ''site'') = Unreadable"
    by code_simp
  have q: "fst (is_build_running locked_world ''site'') = True"
    by code_simp
  have h1: "fs example_world (status_path example_world ''beta'') = Unreadable \<or>
            (\<exists>bytes. fs example_world (status_path example_world ''beta'') = Regular bytes \<and>
                     (\<not> utf8_valid bytes \<or>
                      load_status example_world (universal_newlines bytes) = None))"
    using f l by blast
  have h2: "fs locked_world (status_path locked_world ''site'') = Unreadable \<or>
            (\<exists>bytes. fs locked_world (status_path locked_world ''site'') = Regular bytes \<and>
                     (\<not> utf8_valid bytes \<or>
                      load_status locked_world (universal_newlines bytes) = None))"
    using u by blast
  show ?thesis
    using f l u p q
      get_build_status_corrupt_record [OF s1 h1] get_build_status_corrupt_record [OF s2 h2]
    by (simp add: new_BuildStatus_def)
qed

subsection \<open>Unknown units\<close>

text \<open>
  Claim C3. For a unit identifier that is not in the current discovery set, each of
  \<^verbatim>\<open>trigger_build\<close>, \<^verbatim>\<open>build_status\<close> and \<^verbatim>\<open>build_logs\<close> fails with the HTTP error 404
  and does nothing further: the only access to the outside is the discovery query itself.
\<close>

theorem unknown_unit_not_found:
  assumes "repo \<notin> set (fst (get_available_repos w))"
  shows "trigger_build w repo = (Inl (not_found repo), [Run list_units_cmd]) \<and>
         build_status w repo = (Inl (not_found repo), [Run list_units_cmd]) \<and>
         build_logs w repo n = (Inl (not_found repo), [Run list_units_cmd]) \<and>
         status_code (not_found repo) = 404"
  using assms
  by (simp add: trigger_build_def build_status_def build_logs_def not_found_def
                get_available_repos_def)

theorem unknown_unit_not_found_witness:
  "''gamma'' \<notin> set (fst (get_available_repos example_world)) \<and>
   trigger_build example_world ''gamma'' = (Inl (not_found ''gamma''), [Run list_units_cmd]) \<and>
   build_status example_world ''gamma'' = (Inl (not_found ''gamma''), [Run list_units_cmd]) \<and>
   build_logs example_world ''gamma'' 100 = (Inl (not_found ''gamma''), [Run list_units_cmd]) \<and>
   status_code (not_found ''gamma'') = 404"
proof -
  have h: "''gamma'' \<notin> set (fst (get_available_repos example_world))"
    by (simp add: repos_example_world)
  show ?thesis using h unknown_unit_not_found [OF h, of 100] by simp
qed

subsection \<open>Trigger coordination\<close>

text \<open>
  Claim C4. For a unit in the discovery set that the live probe reports active,
  \<^verbatim>\<open>trigger_build\<close> answers \<open>already_running\<close> and its only accesses to the outside are
  the discovery query and the probe: no start request goes to the supervisor. Hence a
  caller that triggers again and again, at snapshots in each of which the unit is known
  and active, gets \<open>already_running\<close> every time and causes no start request at all.
\<close>

theorem trigger_while_running_no_start:
  assumes "repo \<in> set (fst (get_available_repos w))" and "fst (is_build_running w repo)"
    and "\<forall>w' \<in> set ws. repo \<in> set (fst (get_available_repos w')) \<and> fst (is_build_running w' repo)"
  shows "trigger_build w repo =
           (Inr \<lparr>trigger_status = already_running,
                 message = ''Build for '' @ repo @ '' already in progress'',
                 trigger_repository = repo\<rparr>,
            [Run list_units_cmd, Run [''systemctl'', ''is-active'', ''nix-build-'' @ repo]])
         \<and> filter is_start_request (snd (trigger_build w repo)) = []
         \<and> (\<forall>r \<in> set (trigger_polling ws repo).
               map_sum id trigger_status (fst r) = Inr already_running)
         \<and> filter is_start_request (concat (map snd (trigger_polling ws repo))) = []"
proof -
  have one: "trigger_build w repo =
           (Inr \<lparr>trigger_status = already_running,
                 message = ''Build for '' @ repo @ '' already in progress'',
                 trigger_repository = repo\<rparr>,
            [Run list_units_cmd, Run [''systemctl'', ''is-active'', ''nix-build-'' @ repo]])"
    using assms(1,2) by (rule trigger_build_running)
  have nostart: "filter is_start_request (snd (trigger_build w repo)) = []"
    by (simp add: one list_units_cmd_def)
  have each: "\<forall>w' \<in> set ws. trigger_build w' repo =
           (Inr \<lparr>trigger_status = already_running,
                 message = ''Build for '' @ repo @ '' already in progress'',
                 trigger_repository = repo\<rparr>,
            [Run list_units_cmd, Run [''systemctl'', ''is-active'', ''nix-build-'' @ repo]])"
    using assms(3) trigger_build_running by blast
  have poll: "\<forall>r \<in> set (trigger_polling ws repo).
               map_sum id trigger_status (fst r) = Inr already_running"
    using each by (auto simp: trigger_polling_def)
  have "\<forall>r \<in> set (trigger_polling ws repo). filter is_start_request (snd r) = []"
    using each by (auto simp: trigger_polling_def list_units_cmd_def)
  then have many: "filter is_start_request (concat (map snd (trigger_polling ws repo))) = []"
    by (induction "trigger_polling ws repo" arbitrary: ws) (auto simp: filter_concat)
  show ?thesis using one nostart poll many by blast
qed

theorem trigger_while_running_no_start_witness:
  "trigger_build example_world ''alpha'' =
     (Inr \<lparr>trigger_status = already_running,
           message = ''Build for alpha already in progress'',
           trigger_repository = ''alpha''\<rparr>,
      [Run list_units_cmd, Run [''systemctl'', ''is-active'', ''nix-build-alpha'']])
   \<and> filter is_start_request (snd (trigger_build example_world ''alpha'')) = []
   \<and> map (\<lambda>r. map_sum id trigger_status (fst r))
        (trigger_polling [example_world, example_world] ''alpha'') =
       [Inr already_running, Inr already_running]
   \<and> filter is_start_request
        (concat (map snd (trigger_polling [example_world, example_world] ''alpha''))) = []"
proof -
  have k: "''alpha'' \<in> set (fst (get_available_repos example_world))"
    by (simp add: repos_example_world)
  have r: "fst (is_build_running example_world ''alpha'')"
    by code_simp
  have a: "\<forall>w' \<in> set [example_world, example_world].
             ''alpha'' \<in> set (fst (get_available_repos w')) \<and> fst (is_build_running w' ''alpha'')"
    using k r by simp
  show ?thesis
    using trigger_while_running_no_start [OF k r a]
    by (simp add: list_units_cmd_def trigger_polling_def)
qed

subsection \<open>Health\<close>

text \<open>
  Claim C6. \<^verbatim>\<open>health\<close> reports \<open>degraded\<close> when the cache probe is false and \<open>healthy\<close>
  when it is true; two hosts on which the cache probe agrees get the same verdict, however
  their units differ; and the response carries the current discovery set.
\<close>

theorem health_verdict_follows_cache:
  "(\<not> fst (is_cache_running w) \<longrightarrow> health_status (fst (health w)) = degraded) \<and>
   (fst (is_cache_running w) \<longrightarrow> health_status (fst (health w)) = healthy) \<and>
   (fst (is_cache_running w') = fst (is_cache_running w) \<longrightarrow>
      health_status (fst (health w')) = health_status (fst (health w))) \<and>
   cache_running (fst (health w)) = fst (is_cache_running w) \<and>
   repositories (fst (health w)) = fst (get_available_repos w)"
  by (simp add: health_def split: prod.splits)

theorem health_verdict_follows_cache_witness:
  "fst (is_cache_running example_world) \<and>
   health_status (fst (health example_world)) = healthy \<and>
   \<not> fst (is_cache_running fresh_world) \<and>
   health_status (fst (health fresh_world)) = degraded \<and>
   fst (is_cache_running empty_world) = fst (is_cache_running example_world) \<and>
   fst (get_available_repos empty_world) = [] \<and>
   health_status (fst (health empty_world)) = health_status (fst (health example_world)) \<and>
   repositories (fst (health example_world)) = [''alpha'', ''beta'']"
proof -
  have u: "fst (is_cache_running example_world)"
    by code_simp
  have d: "\<not> fst (is_cache_running fresh_world)"
    by code_simp
  have e: "fst (is_cache_running empty_world) = fst (is_cache_running example_world)"
    by code_simp
  have n: "fst (get_available_repos empty_world) = []"
    by code_simp
  have r: "fst (get_available_repos example_world) = [''alpha'', ''beta'']"
    by (rule repos_example_world)
  show ?thesis
    using u d e n r
      health_verdict_follows_cache [of example_world empty_world]
      health_verdict_follows_cache [of fresh_world fresh_world]
    by simp
qed

text \<open>
  Claim C9. Whatever the probes and the discovery return, the verdict of \<^verbatim>\<open>health\<close> is
  \<open>healthy\<close> or \<open>degraded\<close>, never \<open>down\<close>.
\<close>

theorem health_never_down:
  "health_status (fst (health w)) \<noteq> down \<and>
   (health_status (fst (health w)) = healthy \<or> health_status (fst (health w)) = degraded)"
  by (simp add: health_def split: prod.splits)

theorem health_never_down_witness:
  "health_status (fst (health fresh_world)) \<noteq> down \<and>
   health_status (fst (health fresh_world)) = degraded"
proof -
  have "health_status (fst (health fresh_world)) = degraded"
    by code_simp
  then show ?thesis using health_never_down [of fresh_world] by simp
qed

subsection \<open>Log retrieval\<close>

text \<open>
  Claim C8, as it stands, fails: on the guarded host the log of the known unit \<^verbatim>\<open>site\<close>
  does not exist, and \<^verbatim>\<open>build_logs\<close> raises instead of returning the empty list, because
  the existence test may not search the directory and nothing catches its error.
\<close>

theorem build_logs_missing_log_counterexample:
  "''site'' \<in> set (fst (get_available_repos guarded_world)) \<and>
   fs guarded_world (log_path guarded_world ''site'') = Missing \<and>
   fst (build_logs guarded_world ''site'' 100) = Inl PermissionError \<and>
   fst (build_logs guarded_world ''site'' 100) \<noteq> Inr \<lparr>logs = []\<rparr>"
proof -
  have k: "''site'' \<in> set (fst (get_available_repos guarded_world))"
    by (simp add: repos_guarded_world)
  have m: "fs guarded_world (log_path guarded_world ''site'') = Missing"
    by code_simp
  have s: "\<not> searchable guarded_world (log_path guarded_world ''site'')"
    by code_simp
  show ?thesis using k m build_logs_unsearchable [OF k s, of 100] by simp
qed

text \<open>
  Claim C8, amended. For a known unit whose log file does not exist, in a directory that
  the existence test may search, \<^verbatim>\<open>build_logs\<close> succeeds with the empty list of lines.
\<close>

theorem build_logs_missing_log_empty:
  assumes "repo \<in> set (fst (get_available_repos w))"
    and "searchable w (log_path w repo)" and "fs w (log_path w repo) = Missing"
  shows "fst (build_logs w repo n) = Inr \<lparr>logs = []\<rparr>"
  using assms by (simp add: build_logs_def get_available_repos_def path_exists_def)

theorem build_logs_missing_log_empty_witness:
  "''site'' \<in> set (fst (get_available_repos fresh_world)) \<and>
   searchable fresh_world (log_path fresh_world ''site'') \<and>
   fs fresh_world (log_path fresh_world ''site'') = Missing \<and>
   fst (build_logs fresh_world ''site'' 100) = Inr \<lparr>logs = []\<rparr>"
proof -
  have k: "''site'' \<in> set (fst (get_available_repos fresh_world))"
    by (simp add: repos_fresh_world)
  have s: "searchable fresh_world (log_path fresh_world ''site'')"
    by code_simp
  have m: "fs fresh_world (log_path fresh_world ''site'') = Missing"
    by code_simp
  show ?thesis using k s m build_logs_missing_log_empty [OF k s m, of 100] by simp
qed

text \<open>
  Claim C10, as it stands, fails in each of its parts. A log of the two lines \<^verbatim>\<open>a\<close> and
  \<^verbatim>\<open>b\<close> gives two elements, not three, when one line is asked for, and one element when
  the count is \<open>- 2^64\<close>, which \<^verbatim>\<open>tail\<close> refuses. A log of one line that holds a carriage
  return gives three elements, not two. A log that is not UTF-8, and a log in a directory
  that may not be searched, give no list at all: \<^verbatim>\<open>build_logs\<close> raises.
\<close>

theorem build_logs_split_newline_counterexample:
  "fs example_world (log_path example_world ''alpha'') = Regular (text_of_lines [''a'', ''b''])
   \<and> fst (build_logs example_world ''alpha'' 1) = Inr \<lparr>logs = [''b'', []]\<rparr>
   \<and> length [''b'', []] \<noteq> length [''a'', ''b''] + 1
   \<and> fst (build_logs example_world ''alpha'' (- 18446744073709551616)) = Inr \<lparr>logs = [[]]\<rparr>
   \<and> fs noisy_world (log_path noisy_world ''bar'') = Regular (text_of_lines [''a'' @ [CR] @ ''b''])
   \<and> fst (build_logs noisy_world ''bar'' 5) = Inr \<lparr>logs = [''a'', ''b'', []]\<rparr>
   \<and> length [''a'', ''b'', []] \<noteq> length [''a'' @ [CR] @ ''b''] + 1
   \<and> ''bin'' \<in> set (fst (get_available_repos noisy_world))
   \<and> fs noisy_world (log_path noisy_world ''bin'') = Regular [CHR 0xFF, LF]
   \<and> fst (build_logs noisy_world ''bin'' 5) = Inl UnicodeDecodeError
   \<and> ''vault'' \<in> set (fst (get_available_repos noisy_world))
   \<and> fs noisy_world (log_path noisy_world ''vault'') = Regular (text_of_lines [''x''])
   \<and> fst (build_logs noisy_world ''vault'' 5) = Inl PermissionError"
proof -
  have f1: "fs example_world (log_path example_world ''alpha'') =
              Regular (text_of_lines [''a'', ''b''])"
    by code_simp
  have c1: "fst (build_logs example_world ''alpha'' 1) = Inr \<lparr>logs = [''b'', []]\<rparr>"
    by code_simp
  have k1: "''alpha'' \<in> set (fst (get_available_repos example_world))"
    by (simp add: repos_example_world)
  have s1: "searchable example_world (log_path example_world ''alpha'')"
    by code_simp
  have e1: "fs example_world (log_path example_world ''alpha'') \<noteq> Missing"
    using f1 by simp
  have t: "tail_stdout (fs example_world (log_path example_world ''alpha''))
             (min (- 18446744073709551616) 10000) = []"
    using f1 by (simp add: tail_stdout_def tail_n_refused)
  have v: "utf8_valid (tail_stdout (fs example_world (log_path example_world ''alpha''))
             (min (- 18446744073709551616) 10000))"
    using t by (simp add: utf8_valid_Nil)
  have c2: "fst (build_logs example_world ''alpha'' (- 18446744073709551616)) =
              Inr \<lparr>logs = [[]]\<rparr>"
    using build_logs_existing [OF k1 s1 e1 v] t by simp
  have f3: "fs noisy_world (log_path noisy_world ''bar'') =
              Regular (text_of_lines [''a'' @ [CR] @ ''b''])"
    by code_simp
  have c3: "fst (build_logs noisy_world ''bar'' 5) = Inr \<lparr>logs = [''a'', ''b'', []]\<rparr>"
    by code_simp
  have k4: "''bin'' \<in> set (fst (get_available_repos noisy_world))"
    by (simp add: repos_noisy_world)
  have f4: "fs noisy_world (log_path noisy_world ''bin'') = Regular [CHR 0xFF, LF]"
    by code_simp
  have c4: "fst (build_logs noisy_world ''bin'' 5) = Inl UnicodeDecodeError"
    by code_simp
  have k5: "''vault'' \<in> set (fst (get_available_repos noisy_world))"
    by (simp add: repos_noisy_world)
  have f5: "fs noisy_world (log_path noisy_world ''vault'') = Regular (text_of_lines [''x''])"
    by code_simp
  have c5: "fst (build_logs noisy_world ''vault'' 5) = Inl PermissionError"
    by code_simp
  show ?thesis using f1 c1 c2 f3 c3 k4 f4 c4 k5 f5 c5 by simp
qed

text \<open>
  Claim C10, amended. For a known unit whose log file the existence test finds (\<^verbatim>\<open>stat\<close>
  is not refused and the file exists) and for which the output of \<^verbatim>\<open>tail\<close> is UTF-8,
  \<^verbatim>\<open>build_logs\<close> returns that output split at line feeds, which is never the empty list.
  When the log consists of lines that each end with a line feed and hold no carriage
  return, and the count \<open>\<bar>min n 10000\<bar>\<close> handed to \<^verbatim>\<open>tail\<close> is below \<open>2^64\<close>, the result
  is the lines that \<^verbatim>\<open>tail\<close> selected followed by one empty string; when all \<open>k\<close> lines
  are within that count these are \<open>k + 1\<close> elements. An existing empty log gives the list
  whose one element is the empty string.
\<close>

theorem build_logs_split_newline:
  assumes "repo \<in> set (fst (get_available_repos w))"
    and "searchable w (log_path w repo)" and "fs w (log_path w repo) \<noteq> Missing"
    and "utf8_valid (tail_stdout (fs w (log_path w repo)) (min n 10000))"
  shows "fst (build_logs w repo n) =
           Inr \<lparr>logs = split_nl (universal_newlines
                                   (tail_stdout (fs w (log_path w repo)) (min n 10000)))\<rparr>
       \<and> split_nl (universal_newlines
                     (tail_stdout (fs w (log_path w repo)) (min n 10000))) \<noteq> []
       \<and> (\<forall>ls. fs w (log_path w repo) = Regular (text_of_lines ls)
                \<and> (\<forall>l \<in> set ls. LF \<notin> set l \<and> CR \<notin> set l)
                \<and> \<bar>min n 10000\<bar> < 18446744073709551616
            \<longrightarrow> fst (build_logs w repo n) =
                  Inr \<lparr>logs = drop (length ls - nat \<bar>min n 10000\<bar>) ls @ [[]]\<rparr>)
       \<and> (\<forall>ls. fs w (log_path w repo) = Regular (text_of_lines ls)
                \<and> (\<forall>l \<in> set ls. LF \<notin> set l \<and> CR \<notin> set l)
                \<and> \<bar>min n 10000\<bar> < 18446744073709551616
                \<and> int (length ls) \<le> \<bar>min n 10000\<bar>
            \<longrightarrow> fst (build_logs w repo n) = Inr \<lparr>logs = ls @ [[]]\<rparr>
                \<and> length (ls @ [[]]) = length ls + 1)
       \<and> (fs w (log_path w repo) = Regular []
            \<longrightarrow> fst (build_logs w repo n) = Inr \<lparr>logs = [[]]\<rparr>)"
proof -
  note ex = build_logs_existing [OF assms, of]
  have a: "split_nl (universal_newlines
                      (tail_stdout (fs w (log_path w repo)) (min n 10000))) \<noteq> []"
    by (rule split_nl_nonempty)
  have b: "fst (build_logs w repo n) =
             Inr \<lparr>logs = drop (length ls - nat \<bar>min n 10000\<bar>) ls @ [[]]\<rparr>"
    if "fs w (log_path w repo) = Regular (text_of_lines ls)"
       "\<forall>l \<in> set ls. LF \<notin> set l \<and> CR \<notin> set l"
       "\<bar>min n 10000\<bar> < 18446744073709551616" for ls
    using that ex by (simp add: tail_stdout_text_of_lines)
  have c: "fst (build_logs w repo n) = Inr \<lparr>logs = ls @ [[]]\<rparr> \<and>
           length (ls @ [[]]) = length ls + 1"
    if "fs w (log_path w repo) = Regular (text_of_lines ls)"
       "\<forall>l \<in> set ls. LF \<notin> set l \<and> CR \<notin> set l"
       "\<bar>min n 10000\<bar> < 18446744073709551616"
       "int (length ls) \<le> \<bar>min n 10000\<bar>" for ls
  proof -
    have "length ls - nat \<bar>min n 10000\<bar> = 0"
      using that(4) by linarith
    then show ?thesis using b [OF that(1,2,3)] by simp
  qed
  have d: "fst (build_logs w repo n) = Inr \<lparr>logs = [[]]\<rparr>"
    if "fs w (log_path w repo) = Regular []"
    using that ex by (simp add: tail_stdout_def tail_n_def)
  show ?thesis using ex a b c d by blast
qed

theorem build_logs_split_newline_witness:
  "fst (build_logs example_world ''alpha'' 100) = Inr \<lparr>logs = [''a'', ''b'', []]\<rparr> \<and>
   fst (build_logs example_world ''beta'' 100) = Inr \<lparr>logs = [[]]\<rparr>"
proof -
  have k1: "''alpha'' \<in> set (fst (get_available_repos example_world))"
    by (simp add: repos_example_world)
  have k2: "''beta'' \<in> set (fst (get_available_repos example_world))"
    by (simp add: repos_example_world)
  have s1: "searchable example_world (log_path example_world ''alpha'')"
    by code_simp
  have s2: "searchable example_world (log_path example_world ''beta'')"
    by code_simp
  have f1: "fs example_world (log_path example_world ''alpha'') =
              Regular (text_of_lines [''a'', ''b''])"
    by code_simp
  have f2: "fs example_world (log_path example_world ''beta'') = Regular []"
    by code_simp
  have e1: "fs example_world (log_path example_world ''alpha'') \<noteq> Missing"
    using f1 by simp
  have e2: "fs example_world (log_path example_world ''beta'') \<noteq> Missing"
    using f2 by simp
  have cl: "\<forall>l \<in> set [''a'', ''b'']. LF \<notin> set l \<and> CR \<notin> set l"
    by (simp add: LF_def CR_def)
  have bd: "\<bar>min 100 10000\<bar> < (18446744073709551616 :: int)"
    by simp
  have le: "int (length [''a'', ''b'']) \<le> \<bar>min 100 10000\<bar>"
    by simp
  have "tail_stdout (Regular (text_of_lines [''a'', ''b''])) (min 100 10000) =
          text_of_lines [''a'', ''b'']"
    using cl by (simp add: tail_stdout_def tail_n_text_of_lines)
  moreover have "utf8_valid (text_of_lines [''a'', ''b''])"
    by code_simp
  ultimately
  have v1: "utf8_valid (tail_stdout (fs example_world (log_path example_world ''alpha''))
                          (min 100 10000))"
    using f1 by simp
  have v2: "utf8_valid (tail_stdout (fs example_world (log_path example_world ''beta''))
                          (min 100 10000))"
    using f2 by (simp add: tail_stdout_def tail_n_def utf8_valid_Nil)
  from build_logs_split_newline [OF k1 s1 e1 v1] f1 cl bd le
  have "fst (build_logs example_world ''alpha'' 100) = Inr \<lparr>logs = [''a'', ''b''] @ [[]]\<rparr>"
    by blast
  moreover from build_logs_split_newline [OF k2 s2 e2 v2] f2
  have "fst (build_logs example_world ''beta'' 100) = Inr \<lparr>logs = [[]]\<rparr>"
    by blast
  ultimately show ?thesis by simp
qed

text \<open>
  Claim C5. \<^verbatim>\<open>build_logs\<close> should return at most \<open>min n 10000\<close> lines, and with
  \<open>n = 10000\<close> exactly the \<open>k\<close> lines of a log of \<open>k\<close> lines, in their order. The code
  splits the output of \<^verbatim>\<open>tail\<close> at every line feed, the final one included, so the answer
  has one element more: on the first host the log of \<^verbatim>\<open>alpha\<close> has the two lines
  \<^verbatim>\<open>a\<close> and \<^verbatim>\<open>b\<close>; with \<open>n = 1\<close> the answer has two elements, and with \<open>n = 10000\<close>
  it has three, the two lines and an empty string.
\<close>

theorem build_logs_trailing_element:
  "fst (build_logs example_world ''alpha'' 1) = Inr \<lparr>logs = [''b'', []]\<rparr> \<and>
   int (length [''b'', []]) > min 1 10000 \<and>
   fs example_world (log_path example_world ''alpha'') = Regular (text_of_lines [''a'', ''b'']) \<and>
   fst (build_logs example_world ''alpha'' 10000) = Inr \<lparr>logs = [''a'', ''b'', []]\<rparr> \<and>
   [''a'', ''b'', []] \<noteq> [''a'', ''b'']"
proof -
  have one: "fst (build_logs example_world ''alpha'' 1) = Inr \<lparr>logs = [''b'', []]\<rparr>"
    by code_simp
  have k: "''alpha'' \<in> set (fst (get_available_repos example_world))"
    by (simp add: repos_example_world)
  have s: "searchable example_world (log_path example_world ''alpha'')"
    by code_simp
  have f: "fs example_world (log_path example_world ''alpha'') =
             Regular (text_of_lines [''a'', ''b''])"
    by code_simp
  have e: "fs example_world (log_path example_world ''alpha'') \<noteq> Missing"
    using f by simp
  have cl: "\<forall>l \<in> set [''a'', ''b'']. LF \<notin> set l \<and> CR \<notin> set l"
    by (simp add: LF_def CR_def)
  have bd: "\<bar>min 10000 10000\<bar> < (18446744073709551616 :: int)"
    by simp
  have "tail_stdout (Regular (text_of_lines [''a'', ''b''])) (min 10000 10000) =
          text_of_lines [''a'', ''b'']"
    using cl by (simp add: tail_stdout_def tail_n_text_of_lines)
  moreover have "utf8_valid (text_of_lines [''a'', ''b''])"
    by code_simp
  ultimately
  have v: "utf8_valid (tail_stdout (fs example_world (log_path example_world ''alpha''))
                         (min 10000 10000))"
    using f by simp
  have "fst (build_logs example_world ''alpha'' 10000) =
          Inr \<lparr>logs = split_nl (universal_newlines
                  (tail_stdout (Regular (text_of_lines [''a'', ''b''])) (min 10000 10000)))\<rparr>"
    using build_logs_existing [OF k s e v] f by simp
  then have all: "fst (build_logs example_world ''alpha'' 10000) =
                    Inr \<lparr>logs = [''a'', ''b'', []]\<rparr>"
    using tail_stdout_text_of_lines [OF cl bd] by simp
  show ?thesis using one f all by simp
qed

end
